theory Spec2Isabelle
  imports Complex_Main "HOL-Library.Sublist"
begin

section \<open>Python values, exceptions and strings\<close>

text \<open>
  The repository is Python. An exception is a value of \<open>py_error\<close>; a function that may
  raise returns \<open>py_error + 'a\<close>, with \<open>Inl\<close> for the exception. The strings carried by
  the constructors are the literal part of the message in the source.
\<close>

datatype py_error =
    AssertionError string
  | ValueError string
  | TypeError string
  | KeyError string
  | IndexError
  | AttributeError string
  | NameError string
  | ZeroDivisionError
  | ExternalError nat

text \<open>
  The values an application-flow dictionary holds: \<open>None\<close>, strings, integers, and objects
  the tasks only pass along (audio buffers, file handles), named by a number.
\<close>

datatype py_value = PyNone | PyStr string | PyInt int | PyObj nat

type_synonym py_dict = "string \<rightharpoonup> py_value"

text \<open>\<open>d.get(k, default)\<close> and \<open>d[k]\<close>.\<close>

definition dict_get :: "py_dict \<Rightarrow> string \<Rightarrow> py_value \<Rightarrow> py_value" where
  "dict_get d k dflt = (case d k of None \<Rightarrow> dflt | Some v \<Rightarrow> v)"

definition dict_item :: "py_dict \<Rightarrow> string \<Rightarrow> py_error + py_value" where
  "dict_item d k = (case d k of None \<Rightarrow> Inl (KeyError k) | Some v \<Rightarrow> Inr v)"


section \<open>AudioASRTask (paddlemix/appflow/audio\_asr.py)\<close>

text \<open>
  The task's collaborators: the Whisper executor held in \<open>self._model\<close>, called with the
  keyword arguments \<open>model\<close>, \<open>task\<close>, \<open>sample_rate\<close>, \<open>config\<close>, \<open>ckpt_path\<close> and
  \<open>audio_file\<close> (in this order below) and returning a dictionary or raising; and
  \<open>str.format\<close> with one positional argument, which may raise on a malformed template.
\<close>

record asr_env =
  whisper_executor ::
    "py_value \<Rightarrow> py_value \<Rightarrow> py_value \<Rightarrow> py_value \<Rightarrow> py_value \<Rightarrow> py_value
      \<Rightarrow> py_error + py_dict"
  str_format :: "string \<Rightarrow> py_value \<Rightarrow> py_error + string"

text \<open>What \<open>logger.info\<close> receives: the template and the value formatted into it.\<close>

datatype log_event = LogInfo string py_value

definition asr_preprocess :: "py_dict \<Rightarrow> py_error + py_dict" where
  "asr_preprocess inputs =
     (let audio = dict_get inputs ''audio'' PyNone in
      if audio = PyNone then Inl (AssertionError ''The image is None'')
      else
        let prompt = dict_get inputs ''prompt'' PyNone in
        if prompt = PyNone then Inl (AssertionError ''The prompt is None'')
        else Inr inputs)"

text \<open>
  \<open>inputs["prompt"].format(text)\<close>: only a string has the method; the other values of
  \<open>py_value\<close> raise \<open>AttributeError\<close>.
\<close>

definition format_prompt :: "asr_env \<Rightarrow> py_value \<Rightarrow> py_value \<Rightarrow> py_error + string" where
  "format_prompt env prompt text =
     (case prompt of
        PyStr p \<Rightarrow> str_format env p text
      | PyNone \<Rightarrow> Inl (AttributeError ''format'')
      | PyInt n \<Rightarrow> Inl (AttributeError ''format'')
      | PyObj n \<Rightarrow> Inl (AttributeError ''format''))"

definition asr_run_model :: "asr_env \<Rightarrow> py_dict \<Rightarrow> py_error + (py_dict \<times> log_event list)" where
  "asr_run_model env inputs =
     (let m = dict_get inputs ''model'' (PyStr ''whisper'');
          task = dict_get inputs ''task'' (PyStr ''transcribe'');
          sample_rate = dict_get inputs ''sample_rate'' (PyInt 16000);
          config = dict_get inputs ''config'' PyNone;
          ckpt_path = dict_get inputs ''ckpt_path'' PyNone
      in case dict_item inputs ''audio'' of
           Inl e \<Rightarrow> Inl e
         | Inr audio_file \<Rightarrow>
            (case whisper_executor env m task sample_rate config ckpt_path audio_file of
               Inl e \<Rightarrow> Inl e
             | Inr result \<Rightarrow>
                (case dict_item result ''text'' of
                   Inl e \<Rightarrow> Inl e
                 | Inr text \<Rightarrow>
                    (case dict_item inputs ''prompt'' of
                       Inl e \<Rightarrow> Inl e
                     | Inr prompt \<Rightarrow>
                        (case format_prompt env prompt text of
                           Inl e \<Rightarrow> Inl e
                         | Inr formatted \<Rightarrow>
                             Inr (inputs(''prompt'' \<mapsto> PyStr formatted),
                                  [LogInfo ''Audio File ASR Result: {}'' text]))))))"

definition asr_postprocess :: "py_dict \<Rightarrow> py_dict" where
  "asr_postprocess inputs = inputs"

text \<open>Concrete collaborators for evaluation: an executor that always hears \<open>hello\<close>, and a
  formatter that appends the text to the template.\<close>

definition demo_asr_env :: asr_env where
  "demo_asr_env =
     \<lparr> whisper_executor = (\<lambda>m task sr cfg ckpt audio. Inr [''text'' \<mapsto> PyStr ''hello'']),
       str_format = (\<lambda>p v. case v of PyStr t \<Rightarrow> Inr (p @ t) | _ \<Rightarrow> Inr p) \<rparr>"

definition demo_inputs :: py_dict where
  "demo_inputs = [''audio'' \<mapsto> PyObj 1, ''prompt'' \<mapsto> PyStr ''say: '', ''lang'' \<mapsto> PyStr ''en'']"

section \<open>StableDiffusionControlNetImg2ImgPipeline (pipeline\_controlnet\_img2img.py)\<close>

subsection \<open>Floats, sequencing\<close>

text \<open>
  A Python float is modelled by the real number it denotes (no NaN, no infinity), so the
  comparisons of the source are the comparisons of \<open>real\<close>. The two float operations whose
  result is rounded are left open: \<open>fdiv i n\<close> is \<open>i / n\<close> on two ints and \<open>fmul n x\<close> is
  \<open>n * x\<close> on an int and a float. Everything proved below holds for every rounding;
  \<open>exact_ops\<close> is the one without rounding error, used for evaluation on values that
  floats represent exactly.
\<close>

record float_ops =
  fdiv :: "int \<Rightarrow> int \<Rightarrow> real"
  fmul :: "int \<Rightarrow> real \<Rightarrow> real"

definition exact_ops :: float_ops where
  "exact_ops = \<lparr> fdiv = (\<lambda>i n. real_of_int i / real_of_int n),
                 fmul = (\<lambda>n x. real_of_int n * x) \<rparr>"

text \<open>\<open>int(x)\<close> on a float truncates towards zero.\<close>

definition py_int_of_float :: "real \<Rightarrow> int" where
  "py_int_of_float x = (if 0 \<le> x then \<lfloor>x\<rfloor> else \<lceil>x\<rceil>)"

text \<open>\<open>xs[k:]\<close>: a negative start counts from the end.\<close>

definition py_slice_from :: "'a list \<Rightarrow> int \<Rightarrow> 'a list" where
  "py_slice_from xs k =
     (if k < 0 then drop (nat (int (length xs) + k)) xs else drop (nat k) xs)"

text \<open>A list comprehension or loop whose body may raise: the first exception ends it.\<close>

fun collect :: "('a \<Rightarrow> py_error + 'b) \<Rightarrow> 'a list \<Rightarrow> py_error + 'b list" where
  "collect f [] = Inr []"
| "collect f (x # xs) =
     (case f x of
        Inl e \<Rightarrow> Inl e
      | Inr y \<Rightarrow> (case collect f xs of Inl e \<Rightarrow> Inl e | Inr ys \<Rightarrow> Inr (y # ys)))"

text \<open>A sequence of checks that return nothing: the first exception ends it.\<close>

fun first_error :: "(py_error + unit) list \<Rightarrow> py_error + unit" where
  "first_error [] = Inr ()"
| "first_error (c # cs) = (case c of Inl e \<Rightarrow> Inl e | Inr u \<Rightarrow> first_error cs)"

subsection \<open>Arguments of the pipeline\<close>

text \<open>
  \<open>self.controlnet\<close> is a \<open>ControlNetModel\<close>, a \<open>MultiControlNetModel\<close> with
  \<open>len(nets)\<close> networks, or something else (where the source has \<open>assert False\<close>).
\<close>

datatype controlnet_kind = SingleControlNet | MultiControlNet nat | OtherControlNet

datatype prompt_arg = PromptStr string | PromptList "string list" | PromptOther

datatype callback_steps_arg = CallbackStepsNone | CallbackStepsInt int | CallbackStepsOther

text \<open>A control image: a PIL image, a tensor or array with its batch size, a list.\<close>

datatype image_arg =
    PilImage | TensorImage nat | NpImage nat | ImageList "image_arg list" | OtherImage

text \<open>\<open>controlnet_conditioning_scale\<close>: a float, a list (of floats, or holding lists), or
  a value of another type.\<close>

datatype scale_item = ItemFloat real | ItemList

datatype scale_arg = ScaleFloat real | ScaleList "scale_item list" | ScaleOther

text \<open>\<open>control_guidance_start\<close> and \<open>control_guidance_end\<close> as \<open>__call__\<close> receives
  them: a float or a list of floats.\<close>

datatype guidance_arg = GuidanceFloat real | GuidanceList "real list"

record check_args =
  prompt :: "prompt_arg option"
  image :: image_arg
  callback_steps :: callback_steps_arg
  negative_prompt :: "prompt_arg option"
  prompt_embeds_shape :: "nat list option"
  negative_prompt_embeds_shape :: "nat list option"
  controlnet_conditioning_scale :: scale_arg
  control_guidance_start :: "real list"
  control_guidance_end :: "real list"

subsection \<open>The head of \_\_call\_\_: the guidance lists\<close>

definition normalize_guidance ::
  "controlnet_kind \<Rightarrow> guidance_arg \<Rightarrow> guidance_arg \<Rightarrow> real list \<times> real list" where
  "normalize_guidance kind gstart gend =
     (case (gstart, gend) of
        (GuidanceFloat s, GuidanceList es) \<Rightarrow> (replicate (length es) s, es)
      | (GuidanceList ss, GuidanceFloat e) \<Rightarrow> (ss, replicate (length ss) e)
      | (GuidanceFloat s, GuidanceFloat e) \<Rightarrow>
          (let mult = (case kind of MultiControlNet k \<Rightarrow> k | _ \<Rightarrow> 1)
           in (replicate mult s, replicate mult e))
      | (GuidanceList ss, GuidanceList es) \<Rightarrow> (ss, es))"

subsection \<open>check\_image and check\_inputs\<close>

definition is_list_arg :: "image_arg \<Rightarrow> bool" where
  "is_list_arg i = (case i of ImageList xs \<Rightarrow> True | _ \<Rightarrow> False)"

text \<open>
  \<open>check_image\<close>. The three \<open>isinstance(image, list) and isinstance(image[0], ...)\<close> tests
  read \<open>image[0]\<close>, which raises \<open>IndexError\<close> on an empty list. \<open>prompt_batch_size\<close> is
  left unbound when no branch assigns it, and reading it then raises (a \<open>NameError\<close>);
  the read is skipped when \<open>image_batch_size\<close> is 1.
\<close>

definition check_image ::
  "image_arg \<Rightarrow> prompt_arg option \<Rightarrow> nat list option \<Rightarrow> py_error + unit" where
  "check_image img prm embeds =
     (case img of
        ImageList [] \<Rightarrow> Inl IndexError
      | _ \<Rightarrow>
        (let image_is_pil = (img = PilImage);
             image_is_tensor = (case img of TensorImage n \<Rightarrow> True | _ \<Rightarrow> False);
             image_is_np = (case img of NpImage n \<Rightarrow> True | _ \<Rightarrow> False);
             image_is_pil_list = (case img of ImageList (x # xs) \<Rightarrow> x = PilImage | _ \<Rightarrow> False);
             image_is_tensor_list =
               (case img of ImageList (TensorImage n # xs) \<Rightarrow> True | _ \<Rightarrow> False);
             image_is_np_list = (case img of ImageList (NpImage n # xs) \<Rightarrow> True | _ \<Rightarrow> False)
         in if \<not> image_is_pil \<and> \<not> image_is_tensor \<and> \<not> image_is_np \<and> \<not> image_is_pil_list \<and>
               \<not> image_is_tensor_list \<and> \<not> image_is_np_list
            then Inl (TypeError ''image must be passed and be one of PIL image, numpy array, paddle tensor, list of PIL images, list of numpy arrays or list of paddle tensors'')
            else
              let image_batch_size =
                    (case img of
                       PilImage \<Rightarrow> 1
                     | TensorImage n \<Rightarrow> n
                     | NpImage n \<Rightarrow> n
                     | ImageList xs \<Rightarrow> length xs
                     | OtherImage \<Rightarrow> 0);
                  prompt_batch_size =
                    (case prm of
                       Some (PromptStr s) \<Rightarrow> Inr 1
                     | Some (PromptList ps) \<Rightarrow> Inr (length ps)
                     | _ \<Rightarrow>
                       (case embeds of
                          Some (n # ns) \<Rightarrow> Inr n
                        | Some [] \<Rightarrow> Inl IndexError
                        | None \<Rightarrow> Inl (NameError ''prompt_batch_size'')))
              in case prompt_batch_size of
                   Inl IndexError \<Rightarrow> Inl IndexError
                 | Inl e \<Rightarrow> (if image_batch_size \<noteq> 1 then Inl e else Inr ())
                 | Inr pbs \<Rightarrow>
                     if image_batch_size \<noteq> 1 \<and> image_batch_size \<noteq> pbs
                     then Inl (ValueError ''If image batch size is not 1, image batch size must be same as prompt batch size.'')
                     else Inr ()))"

text \<open>The checks of \<open>check_inputs\<close> in the order of the source, one definition per
  \<open>if\<close> chain.\<close>

definition check_callback_steps :: "callback_steps_arg \<Rightarrow> py_error + unit" where
  "check_callback_steps cb =
     (case cb of
        CallbackStepsInt n \<Rightarrow>
          if n \<le> 0 then Inl (ValueError ''`callback_steps` has to be a positive integer'')
          else Inr ()
      | _ \<Rightarrow> Inl (ValueError ''`callback_steps` has to be a positive integer''))"

definition check_prompt :: "prompt_arg option \<Rightarrow> nat list option \<Rightarrow> py_error + unit" where
  "check_prompt prm embeds =
     (if prm \<noteq> None \<and> embeds \<noteq> None
      then Inl (ValueError ''Cannot forward both `prompt` and `prompt_embeds`.'')
      else if prm = None \<and> embeds = None
      then Inl (ValueError ''Provide either `prompt` or `prompt_embeds`.'')
      else if prm = Some PromptOther
      then Inl (ValueError ''`prompt` has to be of type `str` or `list`'')
      else Inr ())"

definition check_negative_prompt ::
  "prompt_arg option \<Rightarrow> nat list option \<Rightarrow> py_error + unit" where
  "check_negative_prompt neg neg_embeds =
     (if neg \<noteq> None \<and> neg_embeds \<noteq> None
      then Inl (ValueError ''Cannot forward both `negative_prompt` and `negative_prompt_embeds`.'')
      else Inr ())"

definition check_embeds_shapes :: "nat list option \<Rightarrow> nat list option \<Rightarrow> py_error + unit" where
  "check_embeds_shapes embeds neg_embeds =
     (case (embeds, neg_embeds) of
        (Some a, Some b) \<Rightarrow>
          if a \<noteq> b
          then Inl (ValueError ''`prompt_embeds` and `negative_prompt_embeds` must have the same shape when passed directly'')
          else Inr ()
      | _ \<Rightarrow> Inr ())"

definition check_control_image ::
  "controlnet_kind \<Rightarrow> image_arg \<Rightarrow> prompt_arg option \<Rightarrow> nat list option \<Rightarrow> py_error + unit" where
  "check_control_image kind img prm embeds =
     (case kind of
        SingleControlNet \<Rightarrow> check_image img prm embeds
      | MultiControlNet k \<Rightarrow>
          (case img of
             ImageList xs \<Rightarrow>
               if list_ex is_list_arg xs
               then Inl (ValueError ''A single batch of multiple conditionings are supported at the moment.'')
               else if length xs \<noteq> k
               then Inl (ValueError ''For multiple controlnets: `image` must have the same length as the number of controlnets'')
               else first_error (map (\<lambda>x. check_image x prm embeds) xs)
           | _ \<Rightarrow> Inl (TypeError ''For multiple controlnets: `image` must be type `list`''))
      | OtherControlNet \<Rightarrow> Inl (AssertionError []))"

text \<open>
  In the source the test of the length of a list of scales is the \<open>elif\<close> of an \<open>if\<close> with
  the same \<open>isinstance(controlnet_conditioning_scale, list)\<close>, so it is never reached;
  the model keeps the chain as written.
\<close>

definition check_conditioning_scale :: "controlnet_kind \<Rightarrow> scale_arg \<Rightarrow> py_error + unit" where
  "check_conditioning_scale kind scale =
     (case kind of
        SingleControlNet \<Rightarrow>
          (case scale of
             ScaleFloat c \<Rightarrow> Inr ()
           | _ \<Rightarrow> Inl (TypeError ''For single controlnet: `controlnet_conditioning_scale` must be type `float`.''))
      | MultiControlNet k \<Rightarrow>
          (case scale of
             ScaleList cs \<Rightarrow>
               if list_ex (\<lambda>c. c = ItemList) cs
               then Inl (ValueError ''A single batch of multiple conditionings are supported at the moment.'')
               else Inr ()
           | _ \<Rightarrow> Inr ())
      | OtherControlNet \<Rightarrow> Inl (AssertionError []))"

definition check_guidance_lengths ::
  "controlnet_kind \<Rightarrow> real list \<Rightarrow> real list \<Rightarrow> py_error + unit" where
  "check_guidance_lengths kind starts ends =
     (if length starts \<noteq> length ends
      then Inl (ValueError ''`control_guidance_start` and `control_guidance_end` must have the same number of elements.'')
      else case kind of
             MultiControlNet k \<Rightarrow>
               if length starts \<noteq> k
               then Inl (ValueError ''`control_guidance_start` must have one element per controlnet.'')
               else Inr ()
           | _ \<Rightarrow> Inr ())"

definition check_guidance_pair :: "real \<times> real \<Rightarrow> py_error + unit" where
  "check_guidance_pair p =
     (case p of (start, end) \<Rightarrow>
        if start \<ge> end
        then Inl (ValueError ''control guidance start cannot be larger or equal to control guidance end.'')
        else if start < 0
        then Inl (ValueError ''control guidance start can't be smaller than 0.'')
        else if end > 1
        then Inl (ValueError ''control guidance end can't be larger than 1.0.'')
        else Inr ())"

text \<open>Everything \<open>check_inputs\<close> does before it looks at the guidance lists.\<close>

definition checks_before_guidance :: "controlnet_kind \<Rightarrow> check_args \<Rightarrow> py_error + unit" where
  "checks_before_guidance kind a =
     first_error
       [check_callback_steps (callback_steps a),
        check_prompt (prompt a) (prompt_embeds_shape a),
        check_negative_prompt (negative_prompt a) (negative_prompt_embeds_shape a),
        check_embeds_shapes (prompt_embeds_shape a) (negative_prompt_embeds_shape a),
        check_control_image kind (image a) (prompt a) (prompt_embeds_shape a),
        check_conditioning_scale kind (controlnet_conditioning_scale a)]"

definition check_inputs :: "controlnet_kind \<Rightarrow> check_args \<Rightarrow> py_error + unit" where
  "check_inputs kind a =
     (case checks_before_guidance kind a of
        Inl e \<Rightarrow> Inl e
      | Inr u \<Rightarrow>
         (case check_guidance_lengths kind (control_guidance_start a) (control_guidance_end a) of
            Inl e \<Rightarrow> Inl e
          | Inr u \<Rightarrow>
              first_error
                (map check_guidance_pair
                   (zip (control_guidance_start a) (control_guidance_end a)))))"

subsection \<open>get\_timesteps\<close>

text \<open>
  \<open>self.scheduler\<close> as \<open>get_timesteps\<close> reads it: the list \<open>timesteps\<close> and the number
  \<open>order\<close> of model calls per step.
\<close>

record 't scheduler_view =
  sched_timesteps :: "'t list"
  sched_order :: nat

definition get_timesteps ::
  "float_ops \<Rightarrow> 't scheduler_view \<Rightarrow> int \<Rightarrow> real \<Rightarrow> 't list \<times> int" where
  "get_timesteps ops sched num_inference_steps strength =
     (let init_timestep =
            min (py_int_of_float (fmul ops num_inference_steps strength)) num_inference_steps;
          t_start = max (num_inference_steps - init_timestep) 0;
          timesteps = py_slice_from (sched_timesteps sched) (t_start * int (sched_order sched))
      in (timesteps, num_inference_steps - t_start))"

subsection \<open>controlnet\_keep and the conditioning scale of a step\<close>

text \<open>
  The keep factor of step \<open>i\<close> of \<open>n\<close> for one pair:
  \<open>1.0 - float(i / n < s or (i + 1) / n > e)\<close>.
\<close>

definition keep_factor :: "float_ops \<Rightarrow> nat \<Rightarrow> nat \<Rightarrow> real \<Rightarrow> real \<Rightarrow> real" where
  "keep_factor ops i n s e =
     1 - (if fdiv ops (int i) (int n) < s \<or> fdiv ops (int i + 1) (int n) > e then 1 else 0)"

definition keeps_at :: "float_ops \<Rightarrow> nat \<Rightarrow> real list \<Rightarrow> real list \<Rightarrow> nat \<Rightarrow> real list" where
  "keeps_at ops n starts ends i =
     map (\<lambda>p. keep_factor ops i n (fst p) (snd p)) (zip starts ends)"

text \<open>An entry of \<open>controlnet_keep\<close>: \<open>keeps[0]\<close> for a single controlnet (an
  \<open>IndexError\<close> when there is no pair), the list \<open>keeps\<close> otherwise.\<close>

datatype keep_entry = KeepScalar real | KeepList "real list"



text \<open>The step is inside the window of a pair: its start \<open>i / n\<close> is not before \<open>s\<close> and
  its end \<open>(i + 1) / n\<close> is not after \<open>e\<close>.\<close>

definition in_window :: "float_ops \<Rightarrow> nat \<Rightarrow> nat \<Rightarrow> real \<Rightarrow> real \<Rightarrow> bool" where
  "in_window ops i n s e =
     (s \<le> fdiv ops (int i) (int n) \<and> fdiv ops (int i + 1) (int n) \<le> e)"

text \<open>
  In \<open>__call__\<close>, a float scale is repeated once per network of a
  \<open>MultiControlNetModel\<close>.
\<close>

definition normalize_scale :: "controlnet_kind \<Rightarrow> scale_arg \<Rightarrow> scale_arg" where
  "normalize_scale kind scale =
     (case (kind, scale) of
        (MultiControlNet k, ScaleFloat c) \<Rightarrow> ScaleList (replicate k (ItemFloat c))
      | _ \<Rightarrow> scale)"

datatype cond_scale = CondScalar real | CondList "real list"

text \<open>
  \<open>cond_scale\<close> in the loop: \<open>[c * s for c, s in zip(scale, keep)]\<close> when the entry is a
  list, \<open>scale * keep\<close> otherwise. Python raises \<open>TypeError\<close> for \<open>zip\<close> over a
  float and for a list times a float.
\<close>

definition scale_times_keep :: "scale_item \<times> real \<Rightarrow> py_error + real" where
  "scale_times_keep p =
     (case fst p of
        ItemFloat c \<Rightarrow> Inr (c * snd p)
      | ItemList \<Rightarrow> Inl (TypeError ''can't multiply sequence by non-int of type float''))"

definition cond_scale_at :: "scale_arg \<Rightarrow> keep_entry \<Rightarrow> py_error + cond_scale" where
  "cond_scale_at scale keep =
     (case keep of
        KeepList ks \<Rightarrow>
          (case scale of
             ScaleList cs \<Rightarrow>
               (case collect scale_times_keep (zip cs ks) of
                  Inl e \<Rightarrow> Inl e
                | Inr xs \<Rightarrow> Inr (CondList xs))
           | _ \<Rightarrow> Inl (TypeError ''object is not iterable''))
      | KeepScalar k \<Rightarrow>
          (case scale of
             ScaleFloat c \<Rightarrow> Inr (CondScalar (c * k))
           | _ \<Rightarrow> Inl (TypeError ''can't multiply sequence by non-int of type float'')))"

text \<open>Values for evaluation.\<close>

definition demo_check_args :: check_args where
  "demo_check_args =
     \<lparr> prompt = Some (PromptStr ''a cat''), image = PilImage,
       callback_steps = CallbackStepsInt 1, negative_prompt = None,
       prompt_embeds_shape = None, negative_prompt_embeds_shape = None,
       controlnet_conditioning_scale = ScaleFloat (4 / 5),
       control_guidance_start = [1 / 2], control_guidance_end = [1 / 4] \<rparr>"

definition demo_scheduler :: "nat scheduler_view" where
  "demo_scheduler = \<lparr> sched_timesteps = [900, 700, 500, 300, 100], sched_order = 1 \<rparr>"

subsection \<open>One iteration of the denoising loop\<close>

text \<open>
  A tensor is the list of its entries along the batch axis; an entry is a vector over the
  reals, so that \<open>u + g * (t - u)\<close> is computed entry by entry (float rounding is not
  modelled). \<open>paddle.concat\<close> along the batch axis is \<open>@\<close>. \<open>chunk(chunks=2)\<close>
  gives the two halves and rejects a batch that 2 does not divide.
\<close>

definition chunk2 :: "'a list \<Rightarrow> py_error + ('a list \<times> 'a list)" where
  "chunk2 xs =
     (if even (length xs)
      then Inr (take (length xs div 2) xs, drop (length xs div 2) xs)
      else Inl (ValueError ''The input's size along the split dimension must be evenly divisible by 2''))"

definition zeros_like :: "'x::real_vector list \<Rightarrow> 'x list" where
  "zeros_like xs = map (\<lambda>x. 0) xs"

definition guided :: "real \<Rightarrow> 'x::real_vector list \<Rightarrow> 'x list \<Rightarrow> 'x list" where
  "guided g noise_pred_uncond noise_pred_text =
     map (\<lambda>p. fst p + g *\<^sub>R (snd p - fst p)) (zip noise_pred_uncond noise_pred_text)"

text \<open>
  The models and the scheduler, as the loop calls them (the keyword arguments that stay
  the same over the loop, \<open>cross_attention_kwargs\<close> and \<open>extra_step_kwargs\<close>, are part
  of the functions). The controlnet returns the down-block samples and the mid-block
  sample.
\<close>

record ('x, 't, 'e, 'c) denoise_env =
  scale_model_input :: "'x list \<Rightarrow> 't \<Rightarrow> 'x list"
  controlnet_call ::
    "'x list \<Rightarrow> 't \<Rightarrow> 'e list \<Rightarrow> 'c \<Rightarrow> cond_scale \<Rightarrow> bool \<Rightarrow> py_error + ('x list list \<times> 'x list)"
  unet_call :: "'x list \<Rightarrow> 't \<Rightarrow> 'e list \<Rightarrow> 'x list list \<Rightarrow> 'x list \<Rightarrow> py_error + 'x list"
  scheduler_step :: "'x list \<Rightarrow> 't \<Rightarrow> 'x list \<Rightarrow> py_error + 'x list"

text \<open>The local variables of \<open>__call__\<close> that the loop reads.\<close>

record ('e, 'c) denoise_cfg =
  cfg_guidance_scale :: real
  cfg_guess_mode :: bool
  cfg_prompt_embeds :: "'e list"
  cfg_control_image :: 'c
  cfg_conditioning_scale :: scale_arg
  cfg_controlnet_keep :: "keep_entry list"
  cfg_num_timesteps :: nat
  cfg_num_warmup_steps :: int
  cfg_order :: nat
  cfg_callback_given :: bool
  cfg_callback_steps :: int

text \<open>What the loop does to the outside, in order.\<close>

datatype ('x, 't) pipe_event =
    ControlnetCalled "'x list" 't cond_scale
  | UnetCalled "'x list" 't
  | SchedulerStepped "'x list" 't "'x list"
  | ProgressUpdated
  | CallbackCalled nat 't "'x list"

definition do_classifier_free_guidance :: "('e, 'c) denoise_cfg \<Rightarrow> bool" where
  "do_classifier_free_guidance cfg = (cfg_guidance_scale cfg > 1)"

definition latent_model_input ::
  "('x, 't, 'e, 'c) denoise_env \<Rightarrow> ('e, 'c) denoise_cfg \<Rightarrow> 't \<Rightarrow> 'x list \<Rightarrow> 'x list" where
  "latent_model_input env cfg t latents =
     scale_model_input env
       (if do_classifier_free_guidance cfg then latents @ latents else latents) t"

text \<open>The input and the prompt embeddings of the controlnet.\<close>

definition control_inputs ::
  "('x, 't, 'e, 'c) denoise_env \<Rightarrow> ('e, 'c) denoise_cfg \<Rightarrow> 't \<Rightarrow> 'x list
    \<Rightarrow> py_error + ('x list \<times> 'e list)" where
  "control_inputs env cfg t latents =
     (if cfg_guess_mode cfg \<and> do_classifier_free_guidance cfg
      then case chunk2 (cfg_prompt_embeds cfg) of
             Inl e \<Rightarrow> Inl e
           | Inr halves \<Rightarrow> Inr (scale_model_input env latents t, snd halves)
      else Inr (latent_model_input env cfg t latents, cfg_prompt_embeds cfg))"

text \<open>In guess mode with guidance the residuals get a zero half in front.\<close>

definition extend_residuals ::
  "('e, 'c) denoise_cfg \<Rightarrow> 'x::real_vector list list \<times> 'x list \<Rightarrow> 'x list list \<times> 'x list" where
  "extend_residuals cfg res =
     (if cfg_guess_mode cfg \<and> do_classifier_free_guidance cfg
      then (map (\<lambda>d. zeros_like d @ d) (fst res), zeros_like (snd res) @ snd res)
      else res)"

text \<open>The controlnet call and then the unet call: the noise prediction and the two
  events.\<close>

definition predict_noise ::
  "('x::real_vector, 't, 'e, 'c) denoise_env \<Rightarrow> ('e, 'c) denoise_cfg \<Rightarrow> nat \<Rightarrow> 't \<Rightarrow> 'x list
    \<Rightarrow> py_error + ('x list \<times> ('x, 't) pipe_event list)" where
  "predict_noise env cfg i t latents =
     (case control_inputs env cfg t latents of
        Inl e \<Rightarrow> Inl e
      | Inr cin \<Rightarrow>
         (if \<not> i < length (cfg_controlnet_keep cfg) then Inl IndexError
          else case cond_scale_at (cfg_conditioning_scale cfg) (cfg_controlnet_keep cfg ! i) of
                 Inl e \<Rightarrow> Inl e
               | Inr cs \<Rightarrow>
                  (case controlnet_call env (fst cin) t (snd cin) (cfg_control_image cfg) cs
                          (cfg_guess_mode cfg) of
                     Inl e \<Rightarrow> Inl e
                   | Inr res \<Rightarrow>
                      (case unet_call env (latent_model_input env cfg t latents) t
                              (cfg_prompt_embeds cfg) (fst (extend_residuals cfg res))
                              (snd (extend_residuals cfg res)) of
                         Inl e \<Rightarrow> Inl e
                       | Inr noise_pred \<Rightarrow>
                           Inr (noise_pred,
                                [ControlnetCalled (fst cin) t cs,
                                 UnetCalled (latent_model_input env cfg t latents) t])))))"

text \<open>The guidance combination, applied only under classifier-free guidance.\<close>

definition apply_guidance ::
  "('e, 'c) denoise_cfg \<Rightarrow> 'x::real_vector list \<Rightarrow> py_error + 'x list" where
  "apply_guidance cfg noise_pred =
     (if do_classifier_free_guidance cfg
      then case chunk2 noise_pred of
             Inl e \<Rightarrow> Inl e
           | Inr halves \<Rightarrow> Inr (guided (cfg_guidance_scale cfg) (fst halves) (snd halves))
      else Inr noise_pred)"

text \<open>
  The end of the body: the progress bar and the callback. \<open>%\<close> by zero raises; the
  \<open>and\<close>/\<open>or\<close> of the source evaluate it only when they reach it.
\<close>

definition report_step ::
  "('e, 'c) denoise_cfg \<Rightarrow> nat \<Rightarrow> 't \<Rightarrow> 'x list \<Rightarrow> py_error + ('x, 't) pipe_event list" where
  "report_step cfg i t latents =
     (let last = (int i = int (cfg_num_timesteps cfg) - 1);
          after_warmup = (int i + 1 > cfg_num_warmup_steps cfg)
      in if \<not> last \<and> after_warmup \<and> cfg_order cfg = 0 then Inl ZeroDivisionError
         else if last \<or> (after_warmup \<and> (i + 1) mod cfg_order cfg = 0)
         then (if cfg_callback_given cfg
               then (if cfg_callback_steps cfg = 0 then Inl ZeroDivisionError
                     else if int i mod cfg_callback_steps cfg = 0
                     then Inr [ProgressUpdated, CallbackCalled i t latents]
                     else Inr [ProgressUpdated])
               else Inr [ProgressUpdated])
         else Inr [])"

definition denoise_step ::
  "('x::real_vector, 't, 'e, 'c) denoise_env \<Rightarrow> ('e, 'c) denoise_cfg \<Rightarrow> nat \<Rightarrow> 't \<Rightarrow> 'x list
    \<Rightarrow> py_error + ('x list \<times> ('x, 't) pipe_event list)" where
  "denoise_step env cfg i t latents =
     (case predict_noise env cfg i t latents of
        Inl e \<Rightarrow> Inl e
      | Inr pred \<Rightarrow>
         (case apply_guidance cfg (fst pred) of
            Inl e \<Rightarrow> Inl e
          | Inr noise_pred \<Rightarrow>
             (case scheduler_step env noise_pred t latents of
                Inl e \<Rightarrow> Inl e
              | Inr latents' \<Rightarrow>
                 (case report_step cfg i t latents' of
                    Inl e \<Rightarrow> Inl e
                  | Inr rep \<Rightarrow>
                      Inr (latents',
                           snd pred @ [SchedulerStepped noise_pred t latents] @ rep)))))"

text \<open>\<open>for i, t in enumerate(timesteps)\<close>, started at index \<open>i\<close>.\<close>

fun denoise_loop ::
  "('x::real_vector, 't, 'e, 'c) denoise_env \<Rightarrow> ('e, 'c) denoise_cfg \<Rightarrow> nat \<Rightarrow> 't list \<Rightarrow> 'x list
    \<Rightarrow> py_error + ('x list \<times> ('x, 't) pipe_event list)" where
  "denoise_loop env cfg i [] latents = Inr (latents, [])"
| "denoise_loop env cfg i (t # ts) latents =
     (case denoise_step env cfg i t latents of
        Inl e \<Rightarrow> Inl e
      | Inr r \<Rightarrow>
         (case denoise_loop env cfg (Suc i) ts (fst r) of
            Inl e \<Rightarrow> Inl e
          | Inr r' \<Rightarrow> Inr (fst r', snd r @ snd r')))"

text \<open>
  Collaborators for evaluation, on batches of real numbers: the scheduler leaves the model
  input as it is and subtracts the noise prediction, the controlnet returns no residual,
  and the unet triples the second entry of a batch of two.
\<close>

definition demo_denoise_env :: "(real, nat, nat, nat) denoise_env" where
  "demo_denoise_env =
     \<lparr> scale_model_input = (\<lambda>xs t. xs),
       controlnet_call = (\<lambda>xs t emb img cs guess. Inr ([], [])),
       unet_call = (\<lambda>xs t emb down mid. Inr (case xs of [a, b] \<Rightarrow> [a, 3 * b] | _ \<Rightarrow> xs)),
       scheduler_step = (\<lambda>noise t latents. Inr (map (\<lambda>p. fst p - snd p) (zip latents noise))) \<rparr>"

definition demo_denoise_cfg :: "real \<Rightarrow> (nat, nat) denoise_cfg" where
  "demo_denoise_cfg g =
     \<lparr> cfg_guidance_scale = g, cfg_guess_mode = False, cfg_prompt_embeds = [0, 1],
       cfg_control_image = 7, cfg_conditioning_scale = ScaleFloat (1 / 2),
       cfg_controlnet_keep = [KeepScalar 1], cfg_num_timesteps = 1,
       cfg_num_warmup_steps = 0, cfg_order = 1, cfg_callback_given = False,
       cfg_callback_steps = 1 \<rparr>"

subsection \<open>prepare\_latents\<close>

text \<open>
  The \<open>image\<close> argument: a tensor (its \<open>shape[1]\<close> and its entries along the batch
  axis), a PIL image, a list, or a value of another type.
\<close>

datatype 'x latents_source = SourceTensor nat "'x list" | SourcePil | SourceList | SourceOther

datatype 'g generator_arg = NoGenerator | OneGenerator 'g | GeneratorList "'g list"

text \<open>
  The collaborators: \<open>vae.encode(x).latent_dist.sample(g)\<close>,
  \<open>vae.config.scaling_factor\<close>, \<open>randn_tensor\<close> (of a shape of which the batch size is
  kept) and \<open>scheduler.add_noise\<close>.
\<close>

record ('x, 'g, 'ts) latents_env =
  vae_encode_sample :: "'x list \<Rightarrow> 'g option \<Rightarrow> py_error + 'x list"
  vae_scaling_factor :: real
  randn_tensor :: "nat \<Rightarrow> 'g generator_arg \<Rightarrow> 'x list"
  add_noise :: "'x list \<Rightarrow> 'x list \<Rightarrow> 'ts \<Rightarrow> 'x list"

text \<open>
  Modelled from the spec: \<open>deprecate\<close> of \<open>ppdiffusers.utils\<close> is not among the sources.
  The specification says that deprecation paths emit warnings but continue executing old
  behavior, so a call of \<open>deprecate\<close> records a warning, with the name and the version of
  removal it is given, and returns.
\<close>

datatype py_warning = DeprecationWarning string string | LoggerWarning string

definition deprecate :: "string \<Rightarrow> string \<Rightarrow> py_warning list" where
  "deprecate name version = [DeprecationWarning name version]"

text \<open>
  The encoded initial latents. With a list of generators the images are encoded one by
  one, \<open>image[i:i + 1]\<close> with \<open>generator[i]\<close> for \<open>i\<close> in \<open>range(batch_size)\<close>, and
  concatenated (\<open>paddle.concat\<close> rejects an empty list of tensors).
\<close>

definition encode_one ::
  "('x, 'g, 'ts) latents_env \<Rightarrow> 'x list \<Rightarrow> 'g list \<Rightarrow> nat \<Rightarrow> py_error + 'x list" where
  "encode_one env items gens i =
     vae_encode_sample env (take 1 (drop i items)) (Some (gens ! i))"

definition encode_image ::
  "('x::real_vector, 'g, 'ts) latents_env \<Rightarrow> 'x latents_source \<Rightarrow> int \<Rightarrow> 'g generator_arg
    \<Rightarrow> py_error + 'x list" where
  "encode_image env img batch_size generator =
     (case img of
        SourceOther \<Rightarrow> Inl (ValueError ''`image` has to be of type `paddle.Tensor`, `PIL.Image.Image` or list'')
      | SourcePil \<Rightarrow> Inl (AttributeError ''cast'')
      | SourceList \<Rightarrow> Inl (AttributeError ''cast'')
      | SourceTensor channels items \<Rightarrow>
          if channels = 4 then Inr items
          else
            (case (case generator of
                     GeneratorList gens \<Rightarrow>
                       if int (length gens) \<noteq> batch_size
                       then Inl (ValueError ''You have passed a list of generators whose length does not match the requested effective batch size.'')
                       else (case collect (encode_one env items gens) [0..<nat batch_size] of
                               Inl e \<Rightarrow> Inl e
                             | Inr [] \<Rightarrow> Inl (ExternalError 0)
                             | Inr parts \<Rightarrow> Inr (concat parts))
                   | OneGenerator g \<Rightarrow> vae_encode_sample env items (Some g)
                   | NoGenerator \<Rightarrow> vae_encode_sample env items None) of
               Inl e \<Rightarrow> Inl e
             | Inr init_latents \<Rightarrow>
                 Inr (map (\<lambda>x. vae_scaling_factor env *\<^sub>R x) init_latents)))"

text \<open>
  The three branches on \<open>batch_size\<close> against \<open>init_latents.shape[0]\<close>. \<open>batch_size %
  init_latents.shape[0]\<close> is evaluated only when \<open>batch_size\<close> is the larger one, and
  raises for a modulus of zero.
\<close>

definition duplicate_init_latents ::
  "int \<Rightarrow> 'x list \<Rightarrow> py_error + ('x list \<times> py_warning list)" where
  "duplicate_init_latents batch_size init_latents =
     (let m = int (length init_latents)
      in if batch_size > m
         then (if m = 0 then Inl ZeroDivisionError
               else if batch_size mod m = 0
               then Inr (concat (replicate (nat (batch_size div m)) init_latents),
                         deprecate ''len(prompt) != len(image)'' ''1.0.0'')
               else Inl (ValueError ''Cannot duplicate `image` to the number of text prompts.''))
         else Inr (init_latents, []))"

definition prepare_latents ::
  "('x::real_vector, 'g, 'ts) latents_env \<Rightarrow> 'x latents_source \<Rightarrow> 'ts \<Rightarrow> int \<Rightarrow> int
    \<Rightarrow> 'g generator_arg \<Rightarrow> py_error + ('x list \<times> py_warning list)" where
  "prepare_latents env img timestep batch_size num_images_per_prompt generator =
     (let bs = batch_size * num_images_per_prompt
      in case encode_image env img bs generator of
           Inl e \<Rightarrow> Inl e
         | Inr init_latents \<Rightarrow>
            (case duplicate_init_latents bs init_latents of
               Inl e \<Rightarrow> Inl e
             | Inr dup \<Rightarrow>
                 Inr (add_noise env (fst dup) (randn_tensor env (length (fst dup)) generator)
                        timestep,
                      snd dup)))"

text \<open>Collaborators for evaluation, on batches of real numbers.\<close>

definition demo_latents_env :: "(real, nat, nat) latents_env" where
  "demo_latents_env =
     \<lparr> vae_encode_sample = (\<lambda>xs g. Inr xs), vae_scaling_factor = 1 / 2,
       randn_tensor = (\<lambda>n g. replicate n 1),
       add_noise = (\<lambda>xs noise t. map (\<lambda>p. fst p + snd p) (zip xs noise)) \<rparr>"

section \<open>LoraLoaderMixin (ppdiffusers/loaders/lora.py)\<close>

subsection \<open>State dicts and the checkpoint format\<close>











subsection \<open>lora\_state\_dict\<close>








subsection \<open>load\_lora\_weights and its SDXL override\<close>










subsection \<open>fuse\_lora and unfuse\_lora\<close>

text \<open>
  A text encoder as the two nested functions see it: its attention modules and its MLP
  modules (what \<open>text_encoder_attn_modules\<close> and \<open>text_encoder_mlp_modules\<close> yield), each
  holding projections that are either plain linear layers or \<open>PatchedLoraProjection\<close>s.
  Only the latter has \<open>_fuse_lora\<close> and \<open>_unfuse_lora\<close>.
\<close>

datatype 'w projection = LinearLayer 'w | PatchedLoraProjection 'w

record 'w attn_module =
  q_proj :: "'w projection"
  k_proj :: "'w projection"
  v_proj :: "'w projection"
  out_proj :: "'w projection"

record 'w mlp_module =
  fc1 :: "'w projection"
  fc2 :: "'w projection"

record 'w text_encoder =
  attn_modules :: "'w attn_module list"
  mlp_modules :: "'w mlp_module list"

text \<open>
  The pipeline: the counter, the unet, and the two text encoders, \<open>None\<close> when the
  attribute does not exist (\<open>hasattr\<close> is false).
\<close>

record ('u, 'w) lora_pipeline =
  num_fused_loras :: int
  unet :: 'u
  text_encoder :: "'w text_encoder option"
  text_encoder_2 :: "'w text_encoder option"

text \<open>
  What the sources do not hold: the flag \<open>USE_PPPEFT_BACKEND\<close>, whether
  \<open>version.parse(__version__) > version.parse("0.23")\<close>, the unet's own \<open>fuse_lora\<close> and
  \<open>unfuse_lora\<close>, and the two methods of a patched projection.
\<close>

record ('u, 'w) fuse_env =
  USE_PPPEFT_BACKEND :: bool
  version_above_0_23 :: bool
  unet_fuse_lora :: "real \<Rightarrow> bool \<Rightarrow> 'u \<Rightarrow> py_error + 'u"
  unet_unfuse_lora :: "'u \<Rightarrow> py_error + 'u"
  proj_fuse_lora :: "real \<Rightarrow> bool \<Rightarrow> 'w \<Rightarrow> py_error + 'w"
  proj_unfuse_lora :: "'w \<Rightarrow> py_error + 'w"

definition is_patched :: "'w projection \<Rightarrow> bool" where
  "is_patched pr = (case pr of PatchedLoraProjection w \<Rightarrow> True | LinearLayer w \<Rightarrow> False)"

text \<open>A method of \<open>PatchedLoraProjection\<close> called on a projection.\<close>

definition on_projection :: "('w \<Rightarrow> py_error + 'w) \<Rightarrow> string \<Rightarrow> 'w projection \<Rightarrow> py_error + 'w projection" where
  "on_projection f name pr =
     (case pr of
        PatchedLoraProjection w \<Rightarrow>
          (case f w of Inl e \<Rightarrow> Inl e | Inr w' \<Rightarrow> Inr (PatchedLoraProjection w'))
      | LinearLayer w \<Rightarrow> Inl (AttributeError name))"

definition on_attn_module ::
  "('w \<Rightarrow> py_error + 'w) \<Rightarrow> string \<Rightarrow> 'w attn_module \<Rightarrow> py_error + 'w attn_module" where
  "on_attn_module f name m =
     (if is_patched (q_proj m)
      then case on_projection f name (q_proj m) of
             Inl e \<Rightarrow> Inl e
           | Inr q \<Rightarrow>
              (case on_projection f name (k_proj m) of
                 Inl e \<Rightarrow> Inl e
               | Inr k \<Rightarrow>
                  (case on_projection f name (v_proj m) of
                     Inl e \<Rightarrow> Inl e
                   | Inr v \<Rightarrow>
                      (case on_projection f name (out_proj m) of
                         Inl e \<Rightarrow> Inl e
                       | Inr out \<Rightarrow>
                           Inr (m\<lparr>q_proj := q, k_proj := k, v_proj := v, out_proj := out\<rparr>))))
      else Inr m)"

definition on_mlp_module ::
  "('w \<Rightarrow> py_error + 'w) \<Rightarrow> string \<Rightarrow> 'w mlp_module \<Rightarrow> py_error + 'w mlp_module" where
  "on_mlp_module f name m =
     (if is_patched (fc1 m)
      then case on_projection f name (fc1 m) of
             Inl e \<Rightarrow> Inl e
           | Inr a \<Rightarrow>
              (case on_projection f name (fc2 m) of
                 Inl e \<Rightarrow> Inl e
               | Inr b \<Rightarrow> Inr (m\<lparr>fc1 := a, fc2 := b\<rparr>))
      else Inr m)"

text \<open>The bodies of the nested \<open>fuse_text_encoder_lora\<close> and
  \<open>unfuse_text_encoder_lora\<close>: the attention modules, then the MLP modules.\<close>

definition on_text_encoder ::
  "('w \<Rightarrow> py_error + 'w) \<Rightarrow> string \<Rightarrow> 'w text_encoder \<Rightarrow> py_error + 'w text_encoder" where
  "on_text_encoder f name te =
     (case collect (on_attn_module f name) (attn_modules te) of
        Inl e \<Rightarrow> Inl e
      | Inr attns \<Rightarrow>
         (case collect (on_mlp_module f name) (mlp_modules te) of
            Inl e \<Rightarrow> Inl e
          | Inr mlps \<Rightarrow> Inr (te\<lparr>attn_modules := attns, mlp_modules := mlps\<rparr>)))"

text \<open>
  \<open>if hasattr(self, attr): helper(self.attr)\<close>. Under the PEFT backend the nested
  function is never defined, and calling it raises (a \<open>NameError\<close>).
\<close>

definition on_optional_encoder ::
  "('u, 'w) fuse_env \<Rightarrow> ('w \<Rightarrow> py_error + 'w) \<Rightarrow> string \<Rightarrow> 'w text_encoder option
    \<Rightarrow> py_error + 'w text_encoder option" where
  "on_optional_encoder env f name te =
     (case te of
        None \<Rightarrow> Inr None
      | Some t \<Rightarrow>
          if USE_PPPEFT_BACKEND env then Inl (NameError name)
          else (case on_text_encoder f name t of Inl e \<Rightarrow> Inl e | Inr t' \<Rightarrow> Inr (Some t')))"

definition on_text_encoders ::
  "('u, 'w) fuse_env \<Rightarrow> ('w \<Rightarrow> py_error + 'w) \<Rightarrow> string \<Rightarrow> ('u, 'w) lora_pipeline
    \<Rightarrow> py_error + ('u, 'w) lora_pipeline" where
  "on_text_encoders env f name p =
     (case on_optional_encoder env f name (text_encoder p) of
        Inl e \<Rightarrow> Inl e
      | Inr t1 \<Rightarrow>
         (case on_optional_encoder env f name (text_encoder_2 p) of
            Inl e \<Rightarrow> Inl e
          | Inr t2 \<Rightarrow> Inr (p\<lparr>text_encoder := t1, text_encoder_2 := t2\<rparr>)))"

text \<open>The warning of the legacy backend, issued whether or not a text encoder is
  touched.\<close>

definition legacy_warning :: "('u, 'w) fuse_env \<Rightarrow> string \<Rightarrow> py_warning list" where
  "legacy_warning env name =
     (if \<not> USE_PPPEFT_BACKEND env \<and> version_above_0_23 env then deprecate name ''0.25'' else [])"

text \<open>
  \<open>fuse_lora\<close> and \<open>unfuse_lora\<close> return the pipeline and the warnings; when a
  collaborator raises, the exception is the result.
\<close>

definition fuse_lora ::
  "('u, 'w) fuse_env \<Rightarrow> bool \<Rightarrow> bool \<Rightarrow> real \<Rightarrow> bool \<Rightarrow> ('u, 'w) lora_pipeline
    \<Rightarrow> py_error + (('u, 'w) lora_pipeline \<times> py_warning list)" where
  "fuse_lora env fuse_unet fuse_text_encoder lora_scale safe_fusing p =
     (let p1 = (if fuse_unet \<or> fuse_text_encoder
                then p\<lparr>num_fused_loras := num_fused_loras p + 1\<rparr> else p);
          w1 = (if (fuse_unet \<or> fuse_text_encoder) \<and> num_fused_loras p1 > 1
                then [LoggerWarning ''The current API is supported for operating with a single LoRA file.'']
                else [])
      in case (if fuse_unet
               then (case unet_fuse_lora env lora_scale safe_fusing (unet p1) of
                       Inl e \<Rightarrow> Inl e
                     | Inr u \<Rightarrow> Inr (p1\<lparr>unet := u\<rparr>))
               else Inr p1) of
           Inl e \<Rightarrow> Inl e
         | Inr p2 \<Rightarrow>
            (case (if fuse_text_encoder
                   then on_text_encoders env (proj_fuse_lora env lora_scale safe_fusing)
                          ''fuse_text_encoder_lora'' p2
                   else Inr p2) of
               Inl e \<Rightarrow> Inl e
             | Inr p3 \<Rightarrow> Inr (p3, w1 @ legacy_warning env ''fuse_text_encoder_lora'')))"

definition unfuse_lora ::
  "('u, 'w) fuse_env \<Rightarrow> bool \<Rightarrow> bool \<Rightarrow> ('u, 'w) lora_pipeline
    \<Rightarrow> py_error + (('u, 'w) lora_pipeline \<times> py_warning list)" where
  "unfuse_lora env unfuse_unet unfuse_text_encoder p =
     (case (if unfuse_unet \<and> \<not> USE_PPPEFT_BACKEND env
            then (case unet_unfuse_lora env (unet p) of
                    Inl e \<Rightarrow> Inl e
                  | Inr u \<Rightarrow> Inr (p\<lparr>unet := u\<rparr>))
            else Inr p) of
        Inl e \<Rightarrow> Inl e
      | Inr p1 \<Rightarrow>
         (case (if unfuse_text_encoder
                then on_text_encoders env (proj_unfuse_lora env) ''unfuse_text_encoder_lora'' p1
                else Inr p1) of
            Inl e \<Rightarrow> Inl e
          | Inr p2 \<Rightarrow>
              Inr (p2\<lparr>num_fused_loras := num_fused_loras p2 - 1\<rparr>,
                   legacy_warning env ''unfuse_text_encoder_lora'')))"

text \<open>A pipeline for evaluation: weights are numbers, fusing adds the scale and unfusing
  subtracts one.\<close>

definition demo_fuse_env :: "(real, real) fuse_env" where
  "demo_fuse_env =
     \<lparr> USE_PPPEFT_BACKEND = False, version_above_0_23 = True,
       unet_fuse_lora = (\<lambda>s safe u. Inr (u + s)),
       unet_unfuse_lora = (\<lambda>u. Inr (u - 1)),
       proj_fuse_lora = (\<lambda>s safe w. Inr (w + s)),
       proj_unfuse_lora = (\<lambda>w. Inr (w - 1)) \<rparr>"

definition demo_pipeline :: "(real, real) lora_pipeline" where
  "demo_pipeline =
     \<lparr> num_fused_loras = 0, unet = 10,
       text_encoder =
         Some \<lparr> attn_modules =
                  [\<lparr> q_proj = PatchedLoraProjection 1, k_proj = PatchedLoraProjection 2,
                     v_proj = PatchedLoraProjection 3, out_proj = PatchedLoraProjection 4 \<rparr>],
                mlp_modules = [\<lparr> fc1 = LinearLayer 5, fc2 = LinearLayer 6 \<rparr>] \<rparr>,
       text_encoder_2 = None \<rparr>"

section \<open>Properties of AudioASRTask\<close>

lemma dict_get_None_iff:
  "dict_get d k PyNone = PyNone \<longleftrightarrow> (d k = None \<or> d k = Some PyNone)"
  by (simp add: dict_get_def split: option.splits)

text \<open>
  Claim C8. For every input dictionary, \<open>_preprocess\<close> raises, and what it raises is an
  assertion error, if and only if the key \<open>audio\<close> is absent or bound to \<open>None\<close>, or the key
  \<open>prompt\<close> is absent or bound to \<open>None\<close>; on every other dictionary it returns the
  dictionary it was given.
\<close>

theorem asr_preprocess_raises_iff:
  "((\<exists>e. asr_preprocess inputs = Inl e) \<longleftrightarrow>
      (inputs ''audio'' = None \<or> inputs ''audio'' = Some PyNone \<or>
       inputs ''prompt'' = None \<or> inputs ''prompt'' = Some PyNone)) \<and>
   ((\<exists>e. asr_preprocess inputs = Inl e) \<longleftrightarrow> (\<exists>msg. asr_preprocess inputs = Inl (AssertionError msg))) \<and>
   (asr_preprocess inputs = Inr inputs \<or> (\<exists>msg. asr_preprocess inputs = Inl (AssertionError msg)))"
  unfolding asr_preprocess_def Let_def dict_get_None_iff by auto

theorem asr_preprocess_raises_iff_witness:
  "asr_preprocess demo_inputs = Inr demo_inputs \<and>
   asr_preprocess (demo_inputs(''audio'' := None)) = Inl (AssertionError ''The image is None'') \<and>
   asr_preprocess (demo_inputs(''prompt'' \<mapsto> PyNone)) = Inl (AssertionError ''The prompt is None'')"
proof -
  have a: "asr_preprocess demo_inputs = Inr demo_inputs"
    using asr_preprocess_raises_iff [of demo_inputs] by (auto simp: demo_inputs_def)
  have b: "asr_preprocess (demo_inputs(''audio'' := None)) = Inl (AssertionError ''The image is None'')"
    by (simp add: asr_preprocess_def dict_get_def demo_inputs_def)
  have c: "asr_preprocess (demo_inputs(''prompt'' \<mapsto> PyNone)) = Inl (AssertionError ''The prompt is None'')"
    by (simp add: asr_preprocess_def dict_get_def demo_inputs_def)
  from a b c show ?thesis by simp
qed

text \<open>
  Claim C9. On a dictionary that passed \<open>_preprocess\<close>, with a string prompt, an executor
  that returns a result holding \<open>text\<close> and a template that formats, \<open>_run_model\<close>
  returns the input dictionary with the entry \<open>prompt\<close> replaced by the formatted prompt and
  every other key bound as before (absent keys stay absent); \<open>_postprocess\<close> returns what it
  is given.
\<close>

theorem asr_run_model_updates_prompt_only:
  assumes "asr_preprocess inputs = Inr inputs"
    and "inputs ''prompt'' = Some (PyStr p)"
    and "whisper_executor env (dict_get inputs ''model'' (PyStr ''whisper''))
           (dict_get inputs ''task'' (PyStr ''transcribe''))
           (dict_get inputs ''sample_rate'' (PyInt 16000))
           (dict_get inputs ''config'' PyNone) (dict_get inputs ''ckpt_path'' PyNone)
           (the (inputs ''audio'')) = Inr result"
    and "result ''text'' = Some text"
    and "str_format env p text = Inr formatted"
  shows "\<exists>out logs. asr_run_model env inputs = Inr (out, logs) \<and>
           out = inputs(''prompt'' \<mapsto> PyStr formatted) \<and>
           out ''prompt'' = Some (PyStr formatted) \<and>
           (\<forall>k. k \<noteq> ''prompt'' \<longrightarrow> out k = inputs k) \<and>
           asr_postprocess out = out"
proof -
  from assms(1) obtain a where a: "inputs ''audio'' = Some a"
    unfolding asr_preprocess_def Let_def dict_get_def
    by (cases "inputs ''audio''") (auto split: if_splits)
  have "asr_run_model env inputs =
          Inr (inputs(''prompt'' \<mapsto> PyStr formatted), [LogInfo ''Audio File ASR Result: {}'' text])"
    using assms(2-5) a
    by (simp add: asr_run_model_def Let_def dict_item_def format_prompt_def)
  then show ?thesis by (simp add: asr_postprocess_def)
qed

theorem asr_run_model_updates_prompt_only_witness:
  "\<exists>logs. asr_run_model demo_asr_env demo_inputs =
      Inr ([''audio'' \<mapsto> PyObj 1, ''prompt'' \<mapsto> PyStr ''say: hello'', ''lang'' \<mapsto> PyStr ''en''], logs)"
proof -
  have pre: "asr_preprocess demo_inputs = Inr demo_inputs"
    by (simp add: asr_preprocess_def dict_get_def demo_inputs_def)
  have pr: "demo_inputs ''prompt'' = Some (PyStr ''say: '')"
    by (simp add: demo_inputs_def)
  have ex: "whisper_executor demo_asr_env (dict_get demo_inputs ''model'' (PyStr ''whisper''))
           (dict_get demo_inputs ''task'' (PyStr ''transcribe''))
           (dict_get demo_inputs ''sample_rate'' (PyInt 16000))
           (dict_get demo_inputs ''config'' PyNone) (dict_get demo_inputs ''ckpt_path'' PyNone)
           (the (demo_inputs ''audio'')) = Inr [''text'' \<mapsto> PyStr ''hello'']"
    by (simp add: demo_asr_env_def)
  have tx: "[''text'' \<mapsto> PyStr ''hello''] ''text'' = Some (PyStr ''hello'')"
    by simp
  have fm: "str_format demo_asr_env ''say: '' (PyStr ''hello'') = Inr ''say: hello''"
    by (simp add: demo_asr_env_def)
  from asr_run_model_updates_prompt_only [OF pre pr ex tx fm]
  obtain out logs where r: "asr_run_model demo_asr_env demo_inputs = Inr (out, logs)"
    and o: "out = demo_inputs(''prompt'' \<mapsto> PyStr ''say: hello'')"
    by blast
  have "demo_inputs(''prompt'' \<mapsto> PyStr ''say: hello'') =
          [''audio'' \<mapsto> PyObj 1, ''prompt'' \<mapsto> PyStr ''say: hello'', ''lang'' \<mapsto> PyStr ''en'']"
    by (auto simp: demo_inputs_def fun_eq_iff)
  with r o show ?thesis by simp
qed
section \<open>Properties of the pipeline's argument checks and schedule\<close>

lemma first_error_Inr_iff:
  "first_error cs = Inr () \<longleftrightarrow> list_all (\<lambda>c. c = Inr ()) cs"
  by (induction cs) (auto split: sum.splits)

lemma first_error_ValueError:
  assumes "list_all (\<lambda>c. c = Inr () \<or> (\<exists>msg. c = Inl (ValueError msg))) cs"
    and "first_error cs \<noteq> Inr ()"
  shows "\<exists>msg. first_error cs = Inl (ValueError msg)"
  using assms by (induction cs) (auto split: sum.splits)

lemma check_guidance_pair_cases:
  "check_guidance_pair p = Inr () \<or> (\<exists>msg. check_guidance_pair p = Inl (ValueError msg))"
  by (cases p) (simp add: check_guidance_pair_def)

lemma check_guidance_pair_ok_iff:
  "check_guidance_pair (s, e) = Inr () \<longleftrightarrow> s < e \<and> 0 \<le> s \<and> e \<le> 1"
  by (auto simp: check_guidance_pair_def)

lemma check_guidance_lengths_cases:
  "check_guidance_lengths kind ss es = Inr () \<or>
   (\<exists>msg. check_guidance_lengths kind ss es = Inl (ValueError msg))"
  by (cases kind) (simp_all add: check_guidance_lengths_def)

lemma check_guidance_lengths_ok:
  "check_guidance_lengths kind ss es = Inr () \<Longrightarrow> length ss = length es"
  by (simp add: check_guidance_lengths_def split: if_splits)

text \<open>
  Claim C6. When the two guidance lists differ in length, or some pair \<open>(start, end)\<close> of
  their zip has \<open>start \<ge> end\<close>, \<open>start < 0.0\<close> or \<open>end > 1.0\<close>, \<open>check_inputs\<close> does not
  return: it raises. The exception is a \<open>ValueError\<close> whenever the checks that come before
  the guidance lists in the source pass (otherwise it is the exception of the first of
  those that fails).
\<close>

theorem check_inputs_rejects_bad_guidance:
  assumes "length (control_guidance_start a) \<noteq> length (control_guidance_end a) \<or>
           list_ex (\<lambda>p. fst p \<ge> snd p \<or> fst p < 0 \<or> snd p > 1)
             (zip (control_guidance_start a) (control_guidance_end a))"
  shows "(\<exists>err. check_inputs kind a = Inl err) \<and>
         (checks_before_guidance kind a = Inr () \<longrightarrow>
            (\<exists>msg. check_inputs kind a = Inl (ValueError msg)))"
proof (cases "checks_before_guidance kind a")
  case (Inl e)
  then show ?thesis by (simp add: check_inputs_def)
next
  case (Inr u)
  let ?ss = "control_guidance_start a" and ?es = "control_guidance_end a"
  let ?pairs = "map check_guidance_pair (zip ?ss ?es)"
  show ?thesis
  proof (cases "check_guidance_lengths kind ?ss ?es")
    case (Inl e)
    with check_guidance_lengths_cases [of kind ?ss ?es]
    obtain msg where "check_guidance_lengths kind ?ss ?es = Inl (ValueError msg)" by auto
    with Inr show ?thesis by (simp add: check_inputs_def)
  next
    case len: (Inr v)
    then have "length ?ss = length ?es"
      using check_guidance_lengths_ok [of kind ?ss ?es] by simp
    with assms obtain p where p: "p \<in> set (zip ?ss ?es)"
      and bad: "fst p \<ge> snd p \<or> fst p < 0 \<or> snd p > 1"
      by (auto simp: list_ex_iff)
    from bad have "check_guidance_pair p \<noteq> Inr ()"
      using check_guidance_pair_ok_iff [of "fst p" "snd p"] by auto
    with p have ne: "first_error ?pairs \<noteq> Inr ()"
      by (auto simp: first_error_Inr_iff list_all_iff)
    have "list_all (\<lambda>c. c = Inr () \<or> (\<exists>msg. c = Inl (ValueError msg))) ?pairs"
      using check_guidance_pair_cases by (auto simp: list_all_iff)
    from first_error_ValueError [OF this ne]
    obtain msg where "first_error ?pairs = Inl (ValueError msg)" ..
    with Inr len show ?thesis by (simp add: check_inputs_def)
  qed
qed

theorem check_inputs_rejects_bad_guidance_witness:
  "checks_before_guidance SingleControlNet demo_check_args = Inr () \<and>
   (\<exists>msg. check_inputs SingleControlNet demo_check_args = Inl (ValueError msg))"
proof -
  have bad: "length (control_guidance_start demo_check_args) \<noteq>
               length (control_guidance_end demo_check_args) \<or>
             list_ex (\<lambda>p. fst p \<ge> snd p \<or> fst p < 0 \<or> snd p > 1)
               (zip (control_guidance_start demo_check_args) (control_guidance_end demo_check_args))"
    by (simp add: demo_check_args_def)
  have pre: "checks_before_guidance SingleControlNet demo_check_args = Inr ()"
    by (simp add: checks_before_guidance_def demo_check_args_def check_callback_steps_def
        check_prompt_def check_negative_prompt_def check_embeds_shapes_def
        check_control_image_def check_image_def check_conditioning_scale_def)
  from check_inputs_rejects_bad_guidance [OF bad, of SingleControlNet] pre
  show ?thesis by simp
qed

text \<open>
  Claim C4. \<open>get_timesteps\<close> returns as its second component
  \<open>num_inference_steps - t_start\<close> with \<open>t_start = max(num_inference_steps -
  min(int(num_inference_steps * strength), num_inference_steps), 0)\<close>, which is exactly
  \<open>min(int(num_inference_steps * strength), num_inference_steps)\<close>; the list it returns is
  the scheduler's timesteps without their first \<open>t_start * order\<close> entries. This holds for
  every number of steps and every strength, in particular for \<open>num_inference_steps \<ge> 1\<close>
  and \<open>strength\<close> in \<open>[0, 1]\<close>, where the count also lies between 0 and
  \<open>num_inference_steps\<close>.
\<close>

theorem get_timesteps_effective_steps:
  fixes ops :: float_ops and sched :: "'t scheduler_view" and n :: int and strength :: real
  defines "init \<equiv> min (py_int_of_float (fmul ops n strength)) n"
  defines "t_start \<equiv> max (n - init) 0"
  shows "snd (get_timesteps ops sched n strength) = n - t_start \<and>
         snd (get_timesteps ops sched n strength) = init \<and>
         fst (get_timesteps ops sched n strength) =
           drop (nat t_start * sched_order sched) (sched_timesteps sched) \<and>
         (1 \<le> n \<and> 0 \<le> fmul ops n strength \<longrightarrow>
            0 \<le> snd (get_timesteps ops sched n strength) \<and>
            snd (get_timesteps ops sched n strength) \<le> n)"
proof -
  have le: "init \<le> n" by (simp add: init_def)
  then have ts: "t_start = n - init" by (simp add: t_start_def)
  have t0: "0 \<le> t_start" by (simp add: t_start_def)
  then have nonneg: "\<not> t_start * int (sched_order sched) < 0"
    by (simp add: not_less)
  have sl: "py_slice_from (sched_timesteps sched) (t_start * int (sched_order sched)) =
              drop (nat t_start * sched_order sched) (sched_timesteps sched)"
    using nonneg t0 by (simp add: py_slice_from_def nat_mult_distrib)
  have pos: "1 \<le> n \<and> 0 \<le> fmul ops n strength \<longrightarrow> 0 \<le> init"
    by (auto simp: init_def py_int_of_float_def)
  show ?thesis
    using ts sl pos le
    by (simp add: get_timesteps_def Let_def init_def [symmetric] t_start_def [symmetric])
qed

theorem get_timesteps_effective_steps_witness:
  "get_timesteps exact_ops demo_scheduler 5 (1 / 2) = ([300, 100], 2)"
proof -
  have i: "py_int_of_float (fmul exact_ops 5 (1 / 2)) = 2"
    by (simp add: py_int_of_float_def exact_ops_def)
  have "snd (get_timesteps exact_ops demo_scheduler 5 (1 / 2)) = 2 \<and>
        fst (get_timesteps exact_ops demo_scheduler 5 (1 / 2)) = [300, 100]"
    using get_timesteps_effective_steps [of exact_ops demo_scheduler 5 "1 / 2"]
    by (simp add: i demo_scheduler_def)
  then show ?thesis by (cases "get_timesteps exact_ops demo_scheduler 5 (1 / 2)") simp
qed

section \<open>Properties of the conditioning-scale schedule\<close>


lemma keep_factor_in_window:
  "keep_factor ops i n s e = (if in_window ops i n s e then 1 else 0)"
  by (auto simp: keep_factor_def in_window_def)

lemma keeps_at_nth:
  assumes "j < length starts" and "j < length ends"
  shows "keeps_at ops n starts ends i ! j =
           (if in_window ops i n (starts ! j) (ends ! j) then 1 else 0)"
  using assms by (simp add: keeps_at_def keep_factor_in_window)




lemma normalize_guidance_same_length:
  assumes "(\<exists>s. gstart = GuidanceFloat s) \<or> (\<exists>e. gend = GuidanceFloat e)"
  shows "length (fst (normalize_guidance kind gstart gend)) =
           length (snd (normalize_guidance kind gstart gend))"
  using assms by (cases gstart; cases gend) (auto simp: normalize_guidance_def Let_def)

lemma normalize_scale_multi:
  "normalize_scale (MultiControlNet k) (ScaleFloat c) = ScaleList (map ItemFloat (replicate k c))"
  by (simp add: normalize_scale_def)



section \<open>Properties of the denoising loop\<close>

lemma chunk2_lengths:
  assumes "chunk2 xs = Inr (u, v)"
  shows "length u = length v \<and> u @ v = xs"
  using assms by (auto simp: chunk2_def split: if_splits elim!: evenE)

lemma guided_nth:
  assumes "k < length u" and "length u = length v"
  shows "guided g u v ! k = u ! k + g *\<^sub>R (v ! k - u ! k)"
  using assms by (simp add: guided_def)

lemma denoise_step_stages:
  assumes "denoise_step env cfg i t latents = Inr (latents', events)"
  shows "\<exists>cinp cs res noise_pred noise_pred' rep.
           control_inputs env cfg t latents = Inr cinp \<and>
           i < length (cfg_controlnet_keep cfg) \<and>
           cond_scale_at (cfg_conditioning_scale cfg) (cfg_controlnet_keep cfg ! i) = Inr cs \<and>
           controlnet_call env (fst cinp) t (snd cinp) (cfg_control_image cfg) cs
             (cfg_guess_mode cfg) = Inr res \<and>
           unet_call env (latent_model_input env cfg t latents) t (cfg_prompt_embeds cfg)
             (fst (extend_residuals cfg res)) (snd (extend_residuals cfg res)) = Inr noise_pred \<and>
           apply_guidance cfg noise_pred = Inr noise_pred' \<and>
           scheduler_step env noise_pred' t latents = Inr latents' \<and>
           report_step cfg i t latents' = Inr rep \<and>
           events = [ControlnetCalled (fst cinp) t cs,
                     UnetCalled (latent_model_input env cfg t latents) t,
                     SchedulerStepped noise_pred' t latents] @ rep"
proof -
  from assms obtain pred where p: "predict_noise env cfg i t latents = Inr pred"
    by (auto simp: denoise_step_def split: sum.splits)
  with assms obtain np' where g: "apply_guidance cfg (fst pred) = Inr np'"
    by (auto simp: denoise_step_def split: sum.splits)
  with assms p obtain l' where s: "scheduler_step env np' t latents = Inr l'"
    by (auto simp: denoise_step_def split: sum.splits)
  with assms p g obtain rep where r: "report_step cfg i t l' = Inr rep"
    by (auto simp: denoise_step_def split: sum.splits)
  from assms p g s r have l: "latents' = l'"
    and ev: "events = snd pred @ [SchedulerStepped np' t latents] @ rep"
    by (simp_all add: denoise_step_def)
  from p obtain cinp where c: "control_inputs env cfg t latents = Inr cinp"
    by (auto simp: predict_noise_def split: sum.splits)
  with p have k: "i < length (cfg_controlnet_keep cfg)"
    by (auto simp: predict_noise_def split: if_splits)
  with p c obtain cs where
    cs: "cond_scale_at (cfg_conditioning_scale cfg) (cfg_controlnet_keep cfg ! i) = Inr cs"
    by (auto simp: predict_noise_def split: sum.splits)
  with p c k obtain res where
    res: "controlnet_call env (fst cinp) t (snd cinp) (cfg_control_image cfg) cs
            (cfg_guess_mode cfg) = Inr res"
    by (auto simp: predict_noise_def split: sum.splits)
  with p c k cs obtain np where
    np: "unet_call env (latent_model_input env cfg t latents) t (cfg_prompt_embeds cfg)
           (fst (extend_residuals cfg res)) (snd (extend_residuals cfg res)) = Inr np"
    by (auto simp: predict_noise_def split: sum.splits)
  with p c k cs res have pred: "pred = (np, [ControlnetCalled (fst cinp) t cs,
                                 UnetCalled (latent_model_input env cfg t latents) t])"
    by (simp add: predict_noise_def)
  from g pred have g': "apply_guidance cfg np = Inr np'" by simp
  from ev pred l have ev': "events = [ControlnetCalled (fst cinp) t cs,
                     UnetCalled (latent_model_input env cfg t latents) t,
                     SchedulerStepped np' t latents] @ rep"
    by simp
  from s r l have s': "scheduler_step env np' t latents = Inr latents'"
    and r': "report_step cfg i t latents' = Inr rep"
    by simp_all
  show ?thesis
    using c k cs res np g' s' r' ev'
    by (intro exI [of _ cinp] exI [of _ cs] exI [of _ res] exI [of _ np] exI [of _ np']
        exI [of _ rep]) simp
qed

text \<open>
  Claim C3. Whenever an iteration of the loop completes: the events are the controlnet
  call, then the unet call, then the scheduler step (followed by progress reporting), and
  the new latents are what the scheduler's step returns. If \<open>guidance_scale > 1.0\<close> the
  unet input is the scaled concatenation of the latents with themselves (twice the
  batch), and the noise prediction given to the scheduler is, entry by entry,
  \<open>noise_pred_uncond + guidance_scale * (noise_pred_text - noise_pred_uncond)\<close> for
  the two halves of the unet's output. If \<open>guidance_scale \<le> 1.0\<close> the unet input is the
  scaled latents, not doubled, and the scheduler receives the unet's output as it is.
\<close>

theorem denoise_step_guidance:
  assumes "denoise_step env cfg i t latents = Inr (latents', events)"
  shows "(cfg_guidance_scale cfg > 1 \<longrightarrow>
           (\<exists>cin emb cs res noise_pred u tx rep.
              controlnet_call env cin t emb (cfg_control_image cfg) cs (cfg_guess_mode cfg) = Inr res \<and>
              unet_call env (scale_model_input env (latents @ latents) t) t (cfg_prompt_embeds cfg)
                (fst (extend_residuals cfg res)) (snd (extend_residuals cfg res)) = Inr noise_pred \<and>
              length (latents @ latents) = 2 * length latents \<and>
              chunk2 noise_pred = Inr (u, tx) \<and> u @ tx = noise_pred \<and> length u = length tx \<and>
              (\<forall>k < length u. guided (cfg_guidance_scale cfg) u tx ! k =
                  u ! k + cfg_guidance_scale cfg *\<^sub>R (tx ! k - u ! k)) \<and>
              scheduler_step env (guided (cfg_guidance_scale cfg) u tx) t latents = Inr latents' \<and>
              events = [ControlnetCalled cin t cs,
                        UnetCalled (scale_model_input env (latents @ latents) t) t,
                        SchedulerStepped (guided (cfg_guidance_scale cfg) u tx) t latents] @ rep \<and>
              report_step cfg i t latents' = Inr rep)) \<and>
         (cfg_guidance_scale cfg \<le> 1 \<longrightarrow>
           (\<exists>cs res noise_pred rep.
              controlnet_call env (scale_model_input env latents t) t (cfg_prompt_embeds cfg)
                (cfg_control_image cfg) cs (cfg_guess_mode cfg) = Inr res \<and>
              unet_call env (scale_model_input env latents t) t (cfg_prompt_embeds cfg)
                (fst res) (snd res) = Inr noise_pred \<and>
              scheduler_step env noise_pred t latents = Inr latents' \<and>
              events = [ControlnetCalled (scale_model_input env latents t) t cs,
                        UnetCalled (scale_model_input env latents t) t,
                        SchedulerStepped noise_pred t latents] @ rep \<and>
              report_step cfg i t latents' = Inr rep))"
proof -
  from denoise_step_stages [OF assms]
  obtain cinp cs res noise_pred noise_pred' rep where
    c: "control_inputs env cfg t latents = Inr cinp"
    and cn: "controlnet_call env (fst cinp) t (snd cinp) (cfg_control_image cfg) cs
               (cfg_guess_mode cfg) = Inr res"
    and un: "unet_call env (latent_model_input env cfg t latents) t (cfg_prompt_embeds cfg)
               (fst (extend_residuals cfg res)) (snd (extend_residuals cfg res)) = Inr noise_pred"
    and g: "apply_guidance cfg noise_pred = Inr noise_pred'"
    and s: "scheduler_step env noise_pred' t latents = Inr latents'"
    and r: "report_step cfg i t latents' = Inr rep"
    and ev: "events = [ControlnetCalled (fst cinp) t cs,
                       UnetCalled (latent_model_input env cfg t latents) t,
                       SchedulerStepped noise_pred' t latents] @ rep"
    by blast
  have with_guidance: "\<exists>cin emb cs res noise_pred u tx rep.
              controlnet_call env cin t emb (cfg_control_image cfg) cs (cfg_guess_mode cfg) = Inr res \<and>
              unet_call env (scale_model_input env (latents @ latents) t) t (cfg_prompt_embeds cfg)
                (fst (extend_residuals cfg res)) (snd (extend_residuals cfg res)) = Inr noise_pred \<and>
              length (latents @ latents) = 2 * length latents \<and>
              chunk2 noise_pred = Inr (u, tx) \<and> u @ tx = noise_pred \<and> length u = length tx \<and>
              (\<forall>k < length u. guided (cfg_guidance_scale cfg) u tx ! k =
                  u ! k + cfg_guidance_scale cfg *\<^sub>R (tx ! k - u ! k)) \<and>
              scheduler_step env (guided (cfg_guidance_scale cfg) u tx) t latents = Inr latents' \<and>
              events = [ControlnetCalled cin t cs,
                        UnetCalled (scale_model_input env (latents @ latents) t) t,
                        SchedulerStepped (guided (cfg_guidance_scale cfg) u tx) t latents] @ rep \<and>
              report_step cfg i t latents' = Inr rep"
    if gs: "cfg_guidance_scale cfg > 1"
  proof -
    from gs have cfg: "do_classifier_free_guidance cfg"
      by (simp add: do_classifier_free_guidance_def)
    then have lmi: "latent_model_input env cfg t latents =
                      scale_model_input env (latents @ latents) t"
      by (simp add: latent_model_input_def)
    from g cfg obtain u tx where ch: "chunk2 noise_pred = Inr (u, tx)"
      and np': "noise_pred' = guided (cfg_guidance_scale cfg) u tx"
      by (auto simp: apply_guidance_def split: sum.splits)
    from chunk2_lengths [OF ch] have len: "length u = length tx" and app: "u @ tx = noise_pred"
      by simp_all
    have nth: "\<forall>k < length u. guided (cfg_guidance_scale cfg) u tx ! k =
                  u ! k + cfg_guidance_scale cfg *\<^sub>R (tx ! k - u ! k)"
      using len by (simp add: guided_nth)
    show ?thesis
      using cn un ch len app nth s r ev
      unfolding lmi np'
      by (intro exI [of _ "fst cinp"] exI [of _ "snd cinp"] exI [of _ cs] exI [of _ res]
          exI [of _ noise_pred] exI [of _ u] exI [of _ tx] exI [of _ rep]) simp
  qed
  have without_guidance: "\<exists>cs res noise_pred rep.
              controlnet_call env (scale_model_input env latents t) t (cfg_prompt_embeds cfg)
                (cfg_control_image cfg) cs (cfg_guess_mode cfg) = Inr res \<and>
              unet_call env (scale_model_input env latents t) t (cfg_prompt_embeds cfg)
                (fst res) (snd res) = Inr noise_pred \<and>
              scheduler_step env noise_pred t latents = Inr latents' \<and>
              events = [ControlnetCalled (scale_model_input env latents t) t cs,
                        UnetCalled (scale_model_input env latents t) t,
                        SchedulerStepped noise_pred t latents] @ rep \<and>
              report_step cfg i t latents' = Inr rep"
    if gs: "cfg_guidance_scale cfg \<le> 1"
  proof -
    from gs have cfg: "\<not> do_classifier_free_guidance cfg"
      by (simp add: do_classifier_free_guidance_def)
    then have lmi: "latent_model_input env cfg t latents = scale_model_input env latents t"
      by (simp add: latent_model_input_def)
    from c cfg have ci: "cinp = (scale_model_input env latents t, cfg_prompt_embeds cfg)"
      by (simp add: control_inputs_def lmi)
    from cfg have ex: "extend_residuals cfg res = res"
      by (simp add: extend_residuals_def)
    from g cfg have np': "noise_pred' = noise_pred"
      by (simp add: apply_guidance_def)
    show ?thesis
      using cn un s r ev unfolding lmi np' ci ex
      by (intro exI [of _ cs] exI [of _ res] exI [of _ noise_pred] exI [of _ rep]) simp
  qed
  from with_guidance without_guidance show ?thesis by blast
qed

lemma denoise_loop_steps:
  assumes "denoise_loop env cfg i ts latents = Inr (latents', events)"
  shows "length (filter (\<lambda>e. case e of SchedulerStepped a b c \<Rightarrow> True | _ \<Rightarrow> False) events)
           = length ts"
  using assms
proof (induction ts arbitrary: i latents latents' events)
  case Nil
  then show ?case by simp
next
  case (Cons t ts)
  from Cons.prems obtain l1 e1 where st: "denoise_step env cfg i t latents = Inr (l1, e1)"
    by (auto split: sum.splits)
  with Cons.prems obtain l2 e2 where lp: "denoise_loop env cfg (Suc i) ts l1 = Inr (l2, e2)"
    by (auto split: sum.splits)
  with Cons.prems st have ev: "events = e1 @ e2" by simp
  from denoise_step_stages [OF st] obtain a b c rep cs np where
    e1: "e1 = [ControlnetCalled a t cs, UnetCalled b t, SchedulerStepped np t latents] @ rep"
    and rep: "report_step cfg i t l1 = Inr rep"
    by blast
  from rep have "filter (\<lambda>e. case e of SchedulerStepped a b c \<Rightarrow> True | _ \<Rightarrow> False) rep = []"
    by (auto simp: report_step_def Let_def split: if_splits)
  with e1 have "length (filter (\<lambda>e. case e of SchedulerStepped a b c \<Rightarrow> True | _ \<Rightarrow> False) e1) = 1"
    by simp
  with Cons.IH [OF lp] ev show ?case by simp
qed

theorem denoise_step_guidance_witness:
  "denoise_step demo_denoise_env (demo_denoise_cfg 2) 0 5 [2] =
     Inr ([- 8], [ControlnetCalled [2, 2] 5 (CondScalar (1 / 2)), UnetCalled [2, 2] 5,
                  SchedulerStepped [10] 5 [2], ProgressUpdated]) \<and>
   (\<exists>u tx. guided 2 u tx = [10 :: real]) \<and>
   denoise_step demo_denoise_env (demo_denoise_cfg 1) 0 5 [2] =
     Inr ([0], [ControlnetCalled [2] 5 (CondScalar (1 / 2)), UnetCalled [2] 5,
                SchedulerStepped [2] 5 [2], ProgressUpdated])"
proof -
  have a: "denoise_step demo_denoise_env (demo_denoise_cfg 2) 0 5 [2] =
     Inr ([- 8], [ControlnetCalled [2, 2] 5 (CondScalar (1 / 2)), UnetCalled [2, 2] 5,
                  SchedulerStepped [10] 5 [2], ProgressUpdated])"
    by (simp add: denoise_step_def predict_noise_def control_inputs_def latent_model_input_def
        do_classifier_free_guidance_def cond_scale_at_def extend_residuals_def
        apply_guidance_def chunk2_def guided_def report_step_def
        demo_denoise_env_def demo_denoise_cfg_def)
  have b: "denoise_step demo_denoise_env (demo_denoise_cfg 1) 0 5 [2] =
     Inr ([0], [ControlnetCalled [2] 5 (CondScalar (1 / 2)), UnetCalled [2] 5,
                SchedulerStepped [2] 5 [2], ProgressUpdated])"
    by (simp add: denoise_step_def predict_noise_def control_inputs_def latent_model_input_def
        do_classifier_free_guidance_def cond_scale_at_def extend_residuals_def
        apply_guidance_def chunk2_def guided_def report_step_def
        demo_denoise_env_def demo_denoise_cfg_def)
  have g: "cfg_guidance_scale (demo_denoise_cfg 2) > 1"
    by (simp add: demo_denoise_cfg_def)
  from denoise_step_guidance [OF a] g
  obtain u tx rep where
    ev: "[ControlnetCalled [2, 2] 5 (CondScalar (1 / 2)), UnetCalled [2, 2] (5::nat),
              SchedulerStepped [10] 5 [2::real], ProgressUpdated] =
             [ControlnetCalled [2, 2] 5 (CondScalar (1 / 2)), UnetCalled [2, 2] 5,
              SchedulerStepped (guided (cfg_guidance_scale (demo_denoise_cfg 2)) u tx) 5 [2]] @ rep"
    by (auto simp: demo_denoise_env_def)
  from ev have gd: "guided 2 u tx = [10::real]" by (simp add: demo_denoise_cfg_def)
  then have "\<exists>u tx. guided 2 u tx = [10 :: real]" by blast
  with a b show ?thesis by simp
qed

section \<open>Properties of prepare\_latents\<close>

lemma length_concat_replicate:
  "length (concat (replicate k xs)) = k * length xs"
  by (induction k) simp_all

text \<open>
  Claim C7. Let the image be encoded to at least one initial latent, and let the
  effective batch size \<open>batch_size * num_images_per_prompt\<close> exceed their number. If it
  is an exact multiple, \<open>prepare_latents\<close> emits the deprecation warning and returns:
  the initial latents are repeated to the effective batch size before the noise is
  added. If it is not an exact multiple, \<open>prepare_latents\<close> raises \<open>ValueError\<close> and
  returns nothing.
\<close>

theorem prepare_latents_duplicates_or_rejects:
  fixes env :: "('x::real_vector, 'g, 'ts) latents_env"
  assumes "encode_image env img (batch_size * num_images_per_prompt) generator = Inr init_latents"
    and "init_latents \<noteq> []"
    and "int (length init_latents) < batch_size * num_images_per_prompt"
  shows "(int (length init_latents) dvd batch_size * num_images_per_prompt \<longrightarrow>
           (\<exists>dup. dup = concat (replicate
                      (nat (batch_size * num_images_per_prompt div int (length init_latents)))
                      init_latents) \<and>
                  int (length dup) = batch_size * num_images_per_prompt \<and>
                  prepare_latents env img timestep batch_size num_images_per_prompt generator =
                    Inr (add_noise env dup (randn_tensor env (length dup) generator) timestep,
                         [DeprecationWarning ''len(prompt) != len(image)'' ''1.0.0'']))) \<and>
         (\<not> int (length init_latents) dvd batch_size * num_images_per_prompt \<longrightarrow>
           (\<exists>msg. prepare_latents env img timestep batch_size num_images_per_prompt generator =
                    Inl (ValueError msg)))"
proof -
  let ?bs = "batch_size * num_images_per_prompt"
  let ?m = "int (length init_latents)"
  from assms(2) have m: "0 < ?m" by simp
  show ?thesis
  proof (cases "?m dvd ?bs")
    case True
    then have md: "?bs mod ?m = 0" by simp
    let ?dup = "concat (replicate (nat (?bs div ?m)) init_latents)"
    from assms(3) m have "0 \<le> ?bs div ?m" by (simp add: pos_imp_zdiv_nonneg_iff)
    then have "int (length ?dup) = (?bs div ?m) * ?m"
      by (simp add: length_concat_replicate)
    also have "\<dots> = ?bs" using True by simp
    finally have len: "int (length ?dup) = ?bs" .
    have "duplicate_init_latents ?bs init_latents =
            Inr (?dup, [DeprecationWarning ''len(prompt) != len(image)'' ''1.0.0''])"
      using assms(3) m md by (simp add: duplicate_init_latents_def deprecate_def)
    then have "prepare_latents env img timestep batch_size num_images_per_prompt generator =
                 Inr (add_noise env ?dup (randn_tensor env (length ?dup) generator) timestep,
                      [DeprecationWarning ''len(prompt) != len(image)'' ''1.0.0''])"
      using assms(1) by (simp add: prepare_latents_def Let_def)
    with len True show ?thesis by simp
  next
    case False
    then have "?bs mod ?m \<noteq> 0" by (simp add: dvd_eq_mod_eq_0)
    then have "\<exists>msg. duplicate_init_latents ?bs init_latents = Inl (ValueError msg)"
      using assms(3) m by (simp add: duplicate_init_latents_def)
    then have "\<exists>msg. prepare_latents env img timestep batch_size num_images_per_prompt generator =
                 Inl (ValueError msg)"
      using assms(1) by (auto simp: prepare_latents_def Let_def)
    with False show ?thesis by simp
  qed
qed

text \<open>One latent for two prompts is duplicated; two latents for three prompts are
  rejected.\<close>

theorem prepare_latents_duplicates_or_rejects_witness:
  "prepare_latents demo_latents_env (SourceTensor 4 [5]) 9 2 1 NoGenerator =
     Inr ([6, 6], [DeprecationWarning ''len(prompt) != len(image)'' ''1.0.0'']) \<and>
   (\<exists>msg. prepare_latents demo_latents_env (SourceTensor 4 [5, 7]) 9 3 1 NoGenerator =
      Inl (ValueError msg))"
proof -
  have e1: "encode_image demo_latents_env (SourceTensor 4 [5]) (2 * 1) NoGenerator = Inr [5]"
    by (simp add: encode_image_def)
  have n1: "[5 :: real] \<noteq> []" and l1: "int (length [5 :: real]) < 2 * 1" by simp_all
  have d1: "int (length [5 :: real]) dvd 2 * 1" by simp
  have r1: "concat (replicate (nat (2 * 1 div int (length [5 :: real]))) [5 :: real]) = [5, 5]"
    by (simp add: numeral_2_eq_2)
  from prepare_latents_duplicates_or_rejects [OF e1 n1 l1, of 9] d1
  have "prepare_latents demo_latents_env (SourceTensor 4 [5]) 9 2 1 NoGenerator =
          Inr (add_noise demo_latents_env [5, 5]
                 (randn_tensor demo_latents_env (length [5 :: real, 5]) NoGenerator) 9,
               [DeprecationWarning ''len(prompt) != len(image)'' ''1.0.0''])"
    unfolding r1 by blast
  then have a: "prepare_latents demo_latents_env (SourceTensor 4 [5]) 9 2 1 NoGenerator =
     Inr ([6, 6], [DeprecationWarning ''len(prompt) != len(image)'' ''1.0.0''])"
    by (simp add: demo_latents_env_def numeral_2_eq_2)
  have e2: "encode_image demo_latents_env (SourceTensor 4 [5, 7]) (3 * 1) NoGenerator = Inr [5, 7]"
    by (simp add: encode_image_def)
  have n2: "[5 :: real, 7] \<noteq> []" and l2: "int (length [5 :: real, 7]) < 3 * 1" by simp_all
  have d2: "\<not> int (length [5 :: real, 7]) dvd 3 * 1" by simp
  from prepare_latents_duplicates_or_rejects [OF e2 n2 l2, of 9] d2
  have b: "\<exists>msg. prepare_latents demo_latents_env (SourceTensor 4 [5, 7]) 9 3 1 NoGenerator =
      Inl (ValueError msg)"
    by blast
  from a b show ?thesis by simp
qed

section \<open>Properties of the LoRA loader\<close>










section \<open>Properties of fusing\<close>

lemma on_text_encoders_counter:
  assumes "on_text_encoders env f name p = Inr p'"
  shows "num_fused_loras p' = num_fused_loras p"
  using assms by (auto simp: on_text_encoders_def split: sum.splits)

lemma fuse_lora_counter:
  assumes "fuse_lora env fuse_unet fuse_text_encoder lora_scale safe_fusing p = Inr (p', w)"
  shows "num_fused_loras p' =
           (if fuse_unet \<or> fuse_text_encoder then num_fused_loras p + 1 else num_fused_loras p)"
proof -
  let ?p1 = "if fuse_unet \<or> fuse_text_encoder
             then p\<lparr>num_fused_loras := num_fused_loras p + 1\<rparr> else p"
  from assms obtain p2 where
    p2: "(if fuse_unet
          then (case unet_fuse_lora env lora_scale safe_fusing (unet ?p1) of
                  Inl e \<Rightarrow> Inl e
                | Inr u \<Rightarrow> Inr (?p1\<lparr>unet := u\<rparr>))
          else Inr ?p1) = Inr p2"
    unfolding fuse_lora_def Let_def by (auto split: sum.splits)
  with assms have
    p3: "(if fuse_text_encoder
          then on_text_encoders env (proj_fuse_lora env lora_scale safe_fusing)
                 ''fuse_text_encoder_lora'' p2
          else Inr p2) = Inr p'"
    unfolding fuse_lora_def Let_def by (auto split: sum.splits)
  from p2 have n2: "num_fused_loras p2 = num_fused_loras ?p1"
    by (auto split: if_splits sum.splits)
  from p3 have "num_fused_loras p' = num_fused_loras p2"
    by (auto split: if_splits dest: on_text_encoders_counter)
  with n2 show ?thesis by simp
qed

lemma unfuse_lora_counter:
  assumes "unfuse_lora env unfuse_unet unfuse_text_encoder p = Inr (p', w)"
  shows "num_fused_loras p' = num_fused_loras p - 1"
proof -
  from assms obtain p1 where
    p1: "(if unfuse_unet \<and> \<not> USE_PPPEFT_BACKEND env
          then (case unet_unfuse_lora env (unet p) of
                  Inl e \<Rightarrow> Inl e
                | Inr u \<Rightarrow> Inr (p\<lparr>unet := u\<rparr>))
          else Inr p) = Inr p1"
    unfolding unfuse_lora_def by (auto split: sum.splits)
  with assms obtain p2 where
    p2: "(if unfuse_text_encoder
          then on_text_encoders env (proj_unfuse_lora env) ''unfuse_text_encoder_lora'' p1
          else Inr p1) = Inr p2"
    and r: "p' = p2\<lparr>num_fused_loras := num_fused_loras p2 - 1\<rparr>"
    unfolding unfuse_lora_def by (auto split: sum.splits)
  from p1 have n1: "num_fused_loras p1 = num_fused_loras p"
    by (auto split: if_splits sum.splits)
  from p2 have "num_fused_loras p2 = num_fused_loras p1"
    by (auto split: if_splits dest: on_text_encoders_counter)
  with n1 r show ?thesis by simp
qed

text \<open>
  Claim C5. For every pipeline and every call of \<open>fuse_lora\<close> with \<open>fuse_unet\<close> or
  \<open>fuse_text_encoder\<close> true that returns, the counter \<open>num_fused_loras\<close> has grown by
  exactly 1; every call of \<open>unfuse_lora\<close> that returns lowers it by exactly 1; so
  \<open>unfuse_lora\<close> (with the matching flags, or any others) after such a \<open>fuse_lora\<close>
  leaves the counter at its value before the fuse.
\<close>

theorem fuse_then_unfuse_restores_counter:
  assumes "fuse_unet \<or> fuse_text_encoder"
    and "fuse_lora env fuse_unet fuse_text_encoder lora_scale safe_fusing p = Inr (p1, w1)"
    and "unfuse_lora env unfuse_unet unfuse_text_encoder p1 = Inr (p2, w2)"
  shows "num_fused_loras p1 = num_fused_loras p + 1 \<and>
         num_fused_loras p2 = num_fused_loras p1 - 1 \<and>
         num_fused_loras p2 = num_fused_loras p"
  using fuse_lora_counter [OF assms(2)] unfuse_lora_counter [OF assms(3)] assms(1) by simp

theorem fuse_then_unfuse_restores_counter_witness:
  "(\<exists>p1 w1 p2 w2.
      fuse_lora demo_fuse_env True True 1 False demo_pipeline = Inr (p1, w1) \<and>
      unfuse_lora demo_fuse_env True True p1 = Inr (p2, w2) \<and>
      num_fused_loras p1 = 1 \<and> num_fused_loras p2 = 0 \<and> p2 = demo_pipeline)"
proof -
  let ?p1 = "\<lparr> num_fused_loras = 1, unet = 11 :: real,
       text_encoder =
         Some \<lparr> attn_modules =
                  [\<lparr> q_proj = PatchedLoraProjection (2 :: real), k_proj = PatchedLoraProjection 3,
                     v_proj = PatchedLoraProjection 4, out_proj = PatchedLoraProjection 5 \<rparr>],
                mlp_modules = [\<lparr> fc1 = LinearLayer 5, fc2 = LinearLayer 6 \<rparr>] \<rparr>,
       text_encoder_2 = None \<rparr>"
  let ?w = "[DeprecationWarning ''fuse_text_encoder_lora'' ''0.25'']"
  let ?w' = "[DeprecationWarning ''unfuse_text_encoder_lora'' ''0.25'']"
  have f: "fuse_lora demo_fuse_env True True 1 False demo_pipeline = Inr (?p1, ?w)"
    by (simp add: fuse_lora_def on_text_encoders_def on_optional_encoder_def
        on_text_encoder_def on_attn_module_def on_mlp_module_def on_projection_def
        is_patched_def legacy_warning_def deprecate_def demo_fuse_env_def demo_pipeline_def)
  have u: "unfuse_lora demo_fuse_env True True ?p1 = Inr (demo_pipeline, ?w')"
    by (simp add: unfuse_lora_def on_text_encoders_def on_optional_encoder_def
        on_text_encoder_def on_attn_module_def on_mlp_module_def on_projection_def
        is_patched_def legacy_warning_def deprecate_def demo_fuse_env_def demo_pipeline_def)
  have t: "True \<or> True" by simp
  from fuse_then_unfuse_restores_counter [OF t f u]
  have "num_fused_loras ?p1 = num_fused_loras demo_pipeline + 1 \<and>
        num_fused_loras demo_pipeline = num_fused_loras demo_pipeline" by simp
  then have "num_fused_loras ?p1 = 1 \<and> num_fused_loras demo_pipeline = 0"
    by (simp add: demo_pipeline_def)
  with f u show ?thesis by blast
qed


end
